theory Spec2Isabelle
  imports Complex_Main "HOL-Library.AList"
begin

section \<open>Python values\<close>

text \<open>
  The notebooks pass arguments that are either a single object or a Python list
  (\<^verbatim>\<open>circuits\<close>: a circuit or a list of circuits; \<^verbatim>\<open>expectation_operators\<close>: a string,
  a dict or a list of them), and branch on \<^verbatim>\<open>isinstance(x, list)\<close> and \<^verbatim>\<open>len(x)\<close>.
  A value is therefore either an item or a list of values.
\<close>

datatype 'a pyval = Item 'a | PyList "'a pyval list"

text \<open>\<^verbatim>\<open>isinstance(x, list)\<close>\<close>

fun is_list :: "'a pyval \<Rightarrow> bool" where
  "is_list (PyList xs) = True"
| "is_list (Item x) = False"

text \<open>\<^verbatim>\<open>len(x)\<close>, only ever evaluated in the source behind \<^verbatim>\<open>isinstance(x, list)\<close>
  or on a value that was just made a list.\<close>

fun py_len :: "'a pyval \<Rightarrow> nat" where
  "py_len (PyList xs) = length xs"
| "py_len (Item x) = 0"

text \<open>\<^verbatim>\<open>xs * n\<close> for a Python list \<^verbatim>\<open>xs\<close>: \<^verbatim>\<open>n\<close> copies of \<^verbatim>\<open>xs\<close>, concatenated.\<close>

definition list_times :: "'a list \<Rightarrow> nat \<Rightarrow> 'a list" where
  "list_times xs n = concat (replicate n xs)"

section \<open>The heavy-output projector\<close>

text \<open>
  \<^verbatim>\<open>qv_probs\<close> is a dictionary of bitstrings and probabilities. A Python dictionary keeps
  its items in insertion order and \<^verbatim>\<open>heavy_projector\<close> iterates over \<^verbatim>\<open>qv_probs.items()\<close>,
  so a dictionary is an association list; probabilities are rational numbers (the rounding
  of floating-point numbers is not part of the model).
\<close>

type_synonym probs = "(string \<times> rat) list"

text \<open>An expectation operator is a string of diagonal Paulis (\<^verbatim>\<open>"ZZZZ"\<close>) or a dictionary
  (\<^verbatim>\<open>{"1111": 1}\<close>); \<^verbatim>\<open>heavy_projector\<close> returns such a dictionary.\<close>

type_synonym projector = "(string \<times> int) list"

text \<open>
  \<^verbatim>\<open>np.median\<close> of a list, as numpy documents it: the middle element of the sorted list,
  the mean of the two middle elements when the length is even, and \<^verbatim>\<open>nan\<close> (here \<open>None\<close>)
  for the empty list.
\<close>

definition median :: "rat list \<Rightarrow> rat option" where
  "median vs =
     (let s = sort vs; n = length s
      in if n = 0 then None
         else if n mod 2 = 1 then Some (s ! (n div 2))
         else Some ((s ! (n div 2 - 1) + s ! (n div 2)) / 2))"

text \<open>\<^verbatim>\<open>val > median_prob\<close>; every comparison with \<^verbatim>\<open>nan\<close> is false.\<close>

fun gt_median :: "rat \<Rightarrow> rat option \<Rightarrow> bool" where
  "gt_median val None = False"
| "gt_median val (Some m) = (val > m)"

text \<open>
  \<^verbatim>\<open>
  def heavy_projector(qv_probs):
      median_prob = np.median(list(qv_probs.values()))
      heavy_strs = {}
      for key, val in qv_probs.items():
          if val > median_prob:
              heavy_strs[key] = 1
      return heavy_strs
  \<close>
  The body of the loop, then the function.
\<close>

definition heavy_step :: "rat option \<Rightarrow> string \<times> rat \<Rightarrow> projector \<Rightarrow> projector" where
  "heavy_step median_prob kv heavy_strs =
     (if gt_median (snd kv) median_prob then AList.update (fst kv) 1 heavy_strs
      else heavy_strs)"

definition heavy_projector :: "probs \<Rightarrow> projector" where
  "heavy_projector qv_probs =
     (let median_prob = median (map snd qv_probs)
      in fold (heavy_step median_prob) qv_probs [])"

section \<open>The wrapper of the runtime program\<close>

text \<open>Keyword arguments and JSON-like metadata: strings, integers, booleans, lists and
  dictionaries (in insertion order).\<close>

datatype json = JStr string | JInt int | JBool bool | JList "json list"
  | JObj "(string \<times> json) list"

type_synonym config = "(string \<times> json) list"

text \<open>An expectation operator: a string of diagonal Paulis or a dictionary of bitstrings.\<close>

datatype operator = OpStr string | OpDict projector

datatype error = ValueError

text \<open>\<^verbatim>\<open>backend\<close> is a backend instance or a name; of an instance only \<^verbatim>\<open>.name\<close> is read.\<close>

record backend_obj =
  name :: string

datatype backend_arg = BackendName string | BackendObject backend_obj

text \<open>\<^verbatim>\<open>options = {"backend_name": backend}\<close> and the \<^verbatim>\<open>inputs\<close> dictionary, whose keys are fixed.\<close>

record options =
  backend_name :: string

record 'c inputs =
  in_circuits :: "'c pyval"
  in_expectation_operators :: "operator pyval"
  in_shots :: int
  in_transpiler_config :: config
  in_run_config :: config
  in_return_stddev :: bool
  in_skip_transpilation :: bool
  in_use_measurement_mitigation :: bool

text \<open>\<^verbatim>\<open>expectation_operators * len(circuits)\<close>, evaluated in the source only when
  \<^verbatim>\<open>expectation_operators\<close> is a list.\<close>

fun py_times :: "'a pyval \<Rightarrow> nat \<Rightarrow> 'a pyval" where
  "py_times (PyList xs) n = PyList (list_times xs n)"
| "py_times (Item x) n = Item x"

text \<open>
  The validation block of \<^verbatim>\<open>expectation_value_runner\<close>; it returns the (possibly
  broadcast) operators or raises:
  \<^verbatim>\<open>
    if isinstance(circuits, list) and len(circuits) != 1:
        if isinstance(expectation_operators, list):
            if len(circuits) != 1 and len(expectation_operators) == 1:
                expectation_operators = expectation_operators * len(circuits)
            elif len(circuits) != len(expectation_operators):
                raise ValueError("Number of circuits must match number of expectation
                                  values if more than one of each")
  \<close>
\<close>

definition check_operators :: "'c pyval \<Rightarrow> operator pyval \<Rightarrow> error + operator pyval" where
  "check_operators circuits expectation_operators =
     (if is_list circuits \<and> py_len circuits \<noteq> 1 then
        if is_list expectation_operators then
          if py_len circuits \<noteq> 1 \<and> py_len expectation_operators = 1 then
            Inr (py_times expectation_operators (py_len circuits))
          else if py_len circuits \<noteq> py_len expectation_operators then Inl ValueError
          else Inr expectation_operators
        else Inr expectation_operators
      else Inr expectation_operators)"

text \<open>
  \<^verbatim>\<open>expectation_value_runner\<close>. The notebook's globals \<^verbatim>\<open>service\<close> and \<^verbatim>\<open>program_id\<close> are
  arguments; \<^verbatim>\<open>service.run\<close> belongs to the SDK and is the parameter \<open>run\<close>, which takes the
  state of the service and returns the job handle and the new state. When the function
  raises, \<open>run\<close> has not been called and the service is as it was.
\<close>

definition expectation_value_runner ::
  "('s \<Rightarrow> string \<Rightarrow> options \<Rightarrow> 'c inputs \<Rightarrow> 'j \<times> 's) \<Rightarrow> 's \<Rightarrow> string \<Rightarrow>
   backend_arg \<Rightarrow> 'c pyval \<Rightarrow> operator pyval \<Rightarrow> int \<Rightarrow> config \<Rightarrow> config \<Rightarrow>
   bool \<Rightarrow> bool \<Rightarrow> bool \<Rightarrow> (error + 'j) \<times> 's" where
  "expectation_value_runner run service program_id backend circuits expectation_operators
     shots transpiler_config run_config skip_transpilation return_stddev
     use_measurement_mitigation =
     (let backend_str = (case backend of BackendName b \<Rightarrow> b | BackendObject b \<Rightarrow> name b);
          opts = \<lparr>backend_name = backend_str\<rparr>
      in case check_operators circuits expectation_operators of
           Inl e \<Rightarrow> (Inl e, service)
         | Inr ops \<Rightarrow>
             (let inputs = \<lparr>in_circuits = circuits,
                            in_expectation_operators = ops,
                            in_shots = shots,
                            in_transpiler_config = transpiler_config,
                            in_run_config = run_config,
                            in_return_stddev = return_stddev,
                            in_skip_transpilation = skip_transpilation,
                            in_use_measurement_mitigation = use_measurement_mitigation\<rparr>;
                  (job, service') = run service program_id opts inputs
              in (Inr job, service')))"

text \<open>A service that only records the requests it receives and numbers its jobs, to run
  the wrapper on concrete inputs.\<close>

definition recording_run ::
  "(string \<times> options \<times> 'c inputs) list \<Rightarrow> string \<Rightarrow> options \<Rightarrow> 'c inputs \<Rightarrow>
   nat \<times> (string \<times> options \<times> 'c inputs) list" where
  "recording_run service program_id opts inputs =
     (length service, service @ [(program_id, opts, inputs)])"

section \<open>The runtime program\<close>

text \<open>
  \<^verbatim>\<open>main\<close> calls the transpiler, the backend and the measurement-mitigation library
  \<^verbatim>\<open>mthree\<close>. They are not part of the repository: \<^verbatim>\<open>main\<close> is parameterised by them.
  The backend is stateful (calibration and execution run circuits on it), so the calls
  that use it return the backend after the call.
  \<^item> \<open>transpile\<close>: \<^verbatim>\<open>transpile(circuits, backend=backend, **transpiler_config)\<close>
  \<^item> \<open>final_measurement_mapping\<close>: \<^verbatim>\<open>mthree.utils.final_measurement_mapping\<close>
  \<^item> \<open>cals_from_system\<close>: \<^verbatim>\<open>mit = mthree.M3Mitigation(backend); mit.cals_from_system(meas_maps)\<close>,
    giving the calibrated mitigator
  \<^item> \<open>backend_run\<close>: \<^verbatim>\<open>backend.run(trans_circuits, shots=shots, **run_config).result().get_counts()\<close>
  \<^item> \<open>apply_correction\<close>: \<^verbatim>\<open>mit.apply_correction(raw_counts, meas_maps, return_mitigation_overhead=...)\<close>
  \<^item> \<open>quasi_expval\<close>, \<open>quasi_expval_and_stddev\<close>: the methods of the quasi-distributions
  \<^item> \<open>expval\<close>, \<open>expval_and_stddev\<close>: \<^verbatim>\<open>mthree.utils.expval\<close>, \<^verbatim>\<open>mthree.utils.expval_and_stddev\<close>
\<close>

record ('b, 'c, 'm, 't, 'n, 'q, 'v) sdk =
  transpile :: "'c pyval \<Rightarrow> 'b \<Rightarrow> config \<Rightarrow> 'c pyval"
  final_measurement_mapping :: "'c pyval \<Rightarrow> 'm"
  cals_from_system :: "'b \<Rightarrow> 'm \<Rightarrow> 't \<times> 'b"
  backend_run :: "'b \<Rightarrow> 'c pyval \<Rightarrow> int \<Rightarrow> config \<Rightarrow> 'n pyval \<times> 'b"
  apply_correction :: "'t \<Rightarrow> 'n pyval \<Rightarrow> 'm \<Rightarrow> bool \<Rightarrow> 'q pyval"
  quasi_expval :: "'q pyval \<Rightarrow> operator pyval \<Rightarrow> 'v pyval"
  quasi_expval_and_stddev :: "'q pyval \<Rightarrow> operator pyval \<Rightarrow> ('v \<times> 'v) pyval"
  expval :: "'n pyval \<Rightarrow> operator pyval \<Rightarrow> 'v pyval"
  expval_and_stddev :: "'n pyval \<Rightarrow> operator pyval \<Rightarrow> ('v \<times> 'v) pyval"

text \<open>What \<^verbatim>\<open>main\<close> returns: expectation values, or (expval, stddev) pairs.\<close>

datatype 'v main_result = Expval "'v pyval" | ExpvalStddev "('v \<times> 'v) pyval"

text \<open>
  \<^verbatim>\<open>
    if not skip_transpilation:
        trans_circuits = transpile(circuits, backend=backend, **transpiler_config)
        if not isinstance(trans_circuits, list):
            trans_circuits = [trans_circuits]
    else:
        if not isinstance(circuits, list):
            trans_circuits = [circuits]
        else:
            trans_circuits = circuits
  \<close>
\<close>

definition trans_circuits_of ::
  "('b, 'c, 'm, 't, 'n, 'q, 'v) sdk \<Rightarrow> 'b \<Rightarrow> 'c pyval \<Rightarrow> config \<Rightarrow> bool \<Rightarrow> 'c pyval" where
  "trans_circuits_of lib backend circuits transpiler_config skip_transpilation =
     (if \<not> skip_transpilation then
        (let trans_circuits = transpile lib circuits backend transpiler_config
         in if \<not> is_list trans_circuits then PyList [trans_circuits] else trans_circuits)
      else
        (if \<not> is_list circuits then PyList [circuits] else circuits))"

text \<open>
  \<^verbatim>\<open>
    duplicate_results = False
    if isinstance(expectation_operators, list):
        if len(expectation_operators) and len(trans_circuits) == 1:
            duplicate_results = True
  \<close>
\<close>

definition duplicate_results_of :: "operator pyval \<Rightarrow> 'c pyval \<Rightarrow> bool" where
  "duplicate_results_of expectation_operators trans_circuits =
     (if is_list expectation_operators then
        (if py_len expectation_operators \<noteq> 0 \<and> py_len trans_circuits = 1 then True
         else False)
      else False)"

text \<open>\<^verbatim>\<open>[x] * len(expectation_operators)\<close>, when \<^verbatim>\<open>duplicate_results\<close> is set (for the
  quasi-distributions the list is wrapped in \<^verbatim>\<open>QuasiCollection\<close>, a list of distributions).\<close>

definition duplicate :: "bool \<Rightarrow> operator pyval \<Rightarrow> 'a pyval \<Rightarrow> 'a pyval" where
  "duplicate duplicate_results expectation_operators x =
     (if duplicate_results then PyList (list_times [x] (py_len expectation_operators)) else x)"

text \<open>\<^verbatim>\<open>main\<close>, from the mitigation set-up on; \<^verbatim>\<open>user_messenger\<close> is not used by the body.\<close>

definition main ::
  "('b, 'c, 'm, 't, 'n, 'q, 'v) sdk \<Rightarrow> 'b \<Rightarrow> 'u \<Rightarrow> 'c pyval \<Rightarrow> operator pyval \<Rightarrow> int \<Rightarrow>
   config \<Rightarrow> config \<Rightarrow> bool \<Rightarrow> bool \<Rightarrow> bool \<Rightarrow> 'v main_result \<times> 'b" where
  "main lib backend user_messenger circuits expectation_operators shots transpiler_config
     run_config skip_transpilation return_stddev use_measurement_mitigation =
     (let trans_circuits =
            trans_circuits_of lib backend circuits transpiler_config skip_transpilation;
          duplicate_results = duplicate_results_of expectation_operators trans_circuits
      in if use_measurement_mitigation then
           (let meas_maps = final_measurement_mapping lib trans_circuits;
                (mit, backend1) = cals_from_system lib backend meas_maps;
                (raw_counts, backend2) = backend_run lib backend1 trans_circuits shots run_config;
                quasi_dists = apply_correction lib mit raw_counts meas_maps return_stddev;
                quasi_dists' = duplicate duplicate_results expectation_operators quasi_dists
            in if return_stddev then
                 (ExpvalStddev (quasi_expval_and_stddev lib quasi_dists' expectation_operators),
                  backend2)
               else (Expval (quasi_expval lib quasi_dists' expectation_operators), backend2))
         else
           (let (raw_counts, backend1) = backend_run lib backend trans_circuits shots run_config;
                raw_counts' = duplicate duplicate_results expectation_operators raw_counts
            in if return_stddev then
                 (ExpvalStddev (expval_and_stddev lib raw_counts' expectation_operators), backend1)
               else (Expval (expval lib raw_counts' expectation_operators), backend1)))"


text \<open>The number of circuits in the \<^verbatim>\<open>circuits\<close> argument: a bare circuit is one circuit.\<close>

fun n_circuits :: "'a pyval \<Rightarrow> nat" where
  "n_circuits (PyList xs) = length xs"
| "n_circuits (Item x) = 1"

text \<open>
  What \<^verbatim>\<open>main\<close> relies on in the expectation routines of \<^verbatim>\<open>mthree\<close>: given a list of
  distributions and a list of operators of the same length, the routine returns a list
  with one entry for each pair.
\<close>

definition entrywise :: "('a pyval \<Rightarrow> operator pyval \<Rightarrow> 'r pyval) \<Rightarrow> bool" where
  "entrywise f \<longleftrightarrow>
     (\<forall>ds os. length ds = length os \<longrightarrow>
        (\<exists>vs. f (PyList ds) (PyList os) = PyList vs \<and> length vs = length os))"

text \<open>The number of entries of the array that \<^verbatim>\<open>main\<close> returns, if it is one.\<close>

fun entries :: "'v main_result \<Rightarrow> nat option" where
  "entries (Expval (PyList vs)) = Some (length vs)"
| "entries (ExpvalStddev (PyList ps)) = Some (length ps)"
| "entries _ = None"

text \<open>
  A stand-in for the libraries, to run \<^verbatim>\<open>main\<close> on concrete inputs: the backend counts the
  jobs it has run, circuits are names, the transpiler returns its argument, the counts of
  a circuit are the number of shots (one item for a single circuit, a list otherwise, as
  \<^verbatim>\<open>get_counts\<close> does), and every expectation value is 1 with deviation 0.
\<close>

fun pairwise_results :: "'r \<Rightarrow> 'a pyval \<Rightarrow> operator pyval \<Rightarrow> 'r pyval" where
  "pairwise_results r (PyList ds) (PyList os) = PyList (map (\<lambda>p. Item r) (zip ds os))"
| "pairwise_results r d os = Item r"

fun demo_counts :: "string pyval \<Rightarrow> int \<Rightarrow> nat pyval" where
  "demo_counts (PyList [x]) shots = Item (nat shots)"
| "demo_counts (PyList xs) shots = PyList (map (\<lambda>x. Item (nat shots)) xs)"
| "demo_counts (Item x) shots = Item (nat shots)"

definition demo_sdk :: "(nat, string, nat, nat, nat, nat, rat) sdk" where
  "demo_sdk =
     \<lparr>transpile = (\<lambda>circuits backend cfg. circuits),
      final_measurement_mapping = (\<lambda>trans_circuits. py_len trans_circuits),
      cals_from_system = (\<lambda>backend meas_maps. (meas_maps, Suc backend)),
      backend_run = (\<lambda>backend trans_circuits shots cfg.
                       (demo_counts trans_circuits shots, Suc backend)),
      apply_correction = (\<lambda>mit raw_counts meas_maps overhead. raw_counts),
      quasi_expval = pairwise_results 1,
      quasi_expval_and_stddev = pairwise_results (1, 0),
      expval = pairwise_results 1,
      expval_and_stddev = pairwise_results (1, 0)\<rparr>"

section \<open>Program metadata and upload\<close>

text \<open>\<^verbatim>\<open>d[k]\<close> and \<^verbatim>\<open>d[k] = v\<close> on a dictionary; \<open>None\<close> where Python raises (a missing key,
  or a value that is not a dictionary).\<close>

fun get_item :: "json \<Rightarrow> string \<Rightarrow> json option" where
  "get_item (JObj kvs) k = map_of kvs k"
| "get_item _ k = None"

fun set_item :: "json \<Rightarrow> string \<Rightarrow> json \<Rightarrow> json option" where
  "set_item (JObj kvs) k v = Some (JObj (AList.update k v kvs))"
| "set_item _ k v = None"

text \<open>\<^verbatim>\<open>meta["spec"][k] = v\<close>\<close>

definition set_spec_item :: "json \<Rightarrow> string \<Rightarrow> json \<Rightarrow> json option" where
  "set_spec_item m k v =
     (case get_item m ''spec'' of
        None \<Rightarrow> None
      | Some sp \<Rightarrow> (case set_item sp k v of None \<Rightarrow> None | Some sp' \<Rightarrow> set_item m ''spec'' sp'))"

text \<open>The three assignments of the notebook that build \<^verbatim>\<open>meta\<close>.\<close>

definition meta_initial :: json where
  "meta_initial = JObj
     [(''name'', JStr ''sample-expval''),
      (''description'', JStr ''A sample expectation value program.''),
      (''max_execution_time'', JInt 1000),
      (''spec'', JObj [])]"

definition meta_parameters :: json where
  "meta_parameters = JObj
     [(''$schema'', JStr ''https://json-schema.org/draft/2019-09/schema''),
      (''properties'', JObj
        [(''circuits'', JObj
           [(''description'', JStr ''A single or list of QuantumCircuits.''),
            (''type'', JList [JStr ''array'', JStr ''object''])]),
         (''expectation_operators'', JObj
           [(''description'', JStr ''One or more expectation values to evaluate.''),
            (''type'', JList [JStr ''string'', JStr ''object'', JStr ''array''])]),
         (''shots'', JObj
           [(''description'', JStr ''Number of shots per circuit.''),
            (''type'', JStr ''integer'')]),
         (''transpiler_config'', JObj
           [(''description'', JStr ''A collection of kwargs passed to transpile.''),
            (''type'', JStr ''object'')]),
         (''run_config'', JObj
           [(''description'',
               JStr ''A collection of kwargs passed to backend.run. Default is False.''),
            (''type'', JStr ''object''),
            (''default'', JBool False)]),
         (''return_stddev'', JObj
           [(''description'',
               JStr ''Return upper-bound on standard deviation. Default is False.''),
            (''type'', JStr ''boolean''),
            (''default'', JBool False)]),
         (''use_measurement_mitigation'', JObj
           [(''description'',
               JStr ''Use measurement mitigation to improve results. Default is False.''),
            (''type'', JStr ''boolean''),
            (''default'', JBool False)])]),
      (''required'', JList [JStr ''circuits''])]"

definition meta_return_values :: json where
  "meta_return_values = JObj
     [(''$schema'', JStr ''https://json-schema.org/draft/2019-09/schema''),
      (''description'',
         JStr ''A list of expectation values and optionally standard deviations.''),
      (''type'', JStr ''array'')]"

definition meta :: "json option" where
  "meta =
     (case set_spec_item meta_initial ''parameters'' meta_parameters of
        None \<Rightarrow> None
      | Some m \<Rightarrow> set_spec_item m ''return_values'' meta_return_values)"

text \<open>
  Modelled from the spec: \<^verbatim>\<open>upload_program\<close> and \<^verbatim>\<open>run\<close> of the service handle, which are
  SDK code outside the notebooks. The spec describes ``a program-upload/run interface
  accepting a metadata schema (name, description, execution-time limit, parameter schema,
  return-value schema) and returning a job handle''; the notebook keeps the value of
  \<^verbatim>\<open>upload_program(data=..., metadata=meta)\<close> as \<^verbatim>\<open>program_id\<close> and passes it to \<^verbatim>\<open>run\<close>.
  The service is the registry of the uploaded programs, by identifier. How the service
  chooses the identifier is not described: it is the parameter \<open>new_id\<close>.
\<close>

text \<open>Modelled from the spec: an uploaded program, the program file with its metadata.\<close>

record program =
  program_data :: string
  program_metadata :: json

type_synonym registry = "(string \<times> program) list"

text \<open>Modelled from the spec: \<^verbatim>\<open>service.upload_program(data=..., metadata=...)\<close>, which
  registers the program and returns its identifier.\<close>

definition upload_program ::
  "(registry \<Rightarrow> json \<Rightarrow> string) \<Rightarrow> registry \<Rightarrow> string \<Rightarrow> json \<Rightarrow> string \<times> registry" where
  "upload_program new_id service data metadata =
     (let program_id = new_id service metadata
      in (program_id,
          AList.update program_id \<lparr>program_data = data, program_metadata = metadata\<rparr> service))"

text \<open>Modelled from the spec: \<^verbatim>\<open>service.run(program_id, options=..., inputs=...)\<close>, which
  returns the handle of a job of the program registered under the identifier.\<close>

datatype service_error = ProgramNotFound

record 'c job =
  job_program :: program
  job_options :: options
  job_inputs :: "'c inputs"

definition service_run ::
  "registry \<Rightarrow> string \<Rightarrow> options \<Rightarrow> 'c inputs \<Rightarrow> service_error + 'c job" where
  "service_run service program_id opts inputs =
     (case map_of service program_id of
        None \<Rightarrow> Inl ProgramNotFound
      | Some p \<Rightarrow> Inr \<lparr>job_program = p, job_options = opts, job_inputs = inputs\<rparr>)"

text \<open>An identifier in the style of the notebook's output: the name of the program and a
  serial number.\<close>

definition serial_id :: "registry \<Rightarrow> json \<Rightarrow> string" where
  "serial_id service metadata =
     (case get_item metadata ''name'' of Some (JStr n) \<Rightarrow> n | _ \<Rightarrow> ''program'')
       @ ''-'' @ replicate (length service) CHR ''1''"

section \<open>The Estimator session\<close>

text \<open>
  Modelled from the spec: the call of the Estimator session object, which is SDK code
  outside the notebooks. The spec describes ``a callable "estimator" context object
  accepting circuit/observable/parameter index lists and returning a result object with
  value and per-result metadata (including variance and shot count)''; the notebook opens
  the session on lists of circuits and observables and calls it with lists of indices (or
  of the objects themselves) and a list of parameter values. The remote evaluation of one
  (circuit, observable, parameter values) triple is the parameter \<open>estimate\<close>, giving
  the value and the variance. Calls the spec does not describe (lists of different lengths,
  an index outside the session's lists) are refused.
\<close>

text \<open>Modelled from the spec: an argument of the call names a circuit (or an observable) of
  the session by its index, or is the object itself.\<close>

datatype 'a ref = Index nat | Object 'a

datatype estimator_error = BadIndex | LengthMismatch

text \<open>Modelled from the spec: the session, opened on lists of circuits and observables, and
  the result object \<^verbatim>\<open>EstimatorResult(values=..., metadata=[{'variance': ..., 'shots': ...}])\<close>.\<close>

record ('c, 'o) estimator =
  session_circuits :: "'c list"
  session_observables :: "'o list"
  session_shots :: nat

record estimator_result =
  result_values :: "rat list"
  result_metadata :: "(string \<times> rat) list list"

text \<open>Modelled from the spec: the evaluation of the triples of a call, one after the other.\<close>

fun resolve :: "'a list \<Rightarrow> 'a ref \<Rightarrow> estimator_error + 'a" where
  "resolve xs (Index i) = (if i < length xs then Inr (xs ! i) else Inl BadIndex)"
| "resolve xs (Object x) = Inr x"

definition estimate_one ::
  "('c \<Rightarrow> 'o \<Rightarrow> 'p \<Rightarrow> rat \<times> rat) \<Rightarrow> ('c, 'o) estimator \<Rightarrow> 'c ref \<times> 'o ref \<times> 'p \<Rightarrow>
   estimator_error + rat \<times> rat" where
  "estimate_one estimate est t =
     (case resolve (session_circuits est) (fst t) of
        Inl e \<Rightarrow> Inl e
      | Inr c \<Rightarrow>
          (case resolve (session_observables est) (fst (snd t)) of
             Inl e \<Rightarrow> Inl e
           | Inr ob \<Rightarrow> Inr (estimate c ob (snd (snd t)))))"

fun estimate_all ::
  "('c \<Rightarrow> 'o \<Rightarrow> 'p \<Rightarrow> rat \<times> rat) \<Rightarrow> ('c, 'o) estimator \<Rightarrow> ('c ref \<times> 'o ref \<times> 'p) list \<Rightarrow>
   estimator_error + (rat \<times> rat) list" where
  "estimate_all estimate est [] = Inr []"
| "estimate_all estimate est (t # ts) =
     (case estimate_one estimate est t of
        Inl e \<Rightarrow> Inl e
      | Inr r \<Rightarrow>
          (case estimate_all estimate est ts of Inl e \<Rightarrow> Inl e | Inr rs \<Rightarrow> Inr (r # rs)))"

text \<open>Modelled from the spec: \<^verbatim>\<open>estimator(circuits=..., observables=..., parameter_values=...)\<close>.\<close>

definition estimator_call ::
  "('c \<Rightarrow> 'o \<Rightarrow> 'p \<Rightarrow> rat \<times> rat) \<Rightarrow> ('c, 'o) estimator \<Rightarrow> 'c ref list \<Rightarrow> 'o ref list \<Rightarrow>
   'p list \<Rightarrow> estimator_error + estimator_result" where
  "estimator_call estimate est circuits observables parameter_values =
     (if length circuits \<noteq> length observables \<or> length circuits \<noteq> length parameter_values
      then Inl LengthMismatch
      else
        (case estimate_all estimate est (zip circuits (zip observables parameter_values)) of
           Inl e \<Rightarrow> Inl e
         | Inr rs \<Rightarrow>
             Inr \<lparr>result_values = map fst rs,
                  result_metadata =
                    map (\<lambda>r. [(''variance'', snd r), (''shots'', of_nat (session_shots est))])
                      rs\<rparr>))"

text \<open>A reference the session can resolve, and the object it stands for (read only for
  such references).\<close>

fun valid_ref :: "'a list \<Rightarrow> 'a ref \<Rightarrow> bool" where
  "valid_ref xs (Index i) = (i < length xs)"
| "valid_ref xs (Object x) = True"

fun deref :: "'a list \<Rightarrow> 'a ref \<Rightarrow> 'a" where
  "deref xs (Index i) = xs ! i"
| "deref xs (Object x) = x"

text \<open>A stand-in for the remote evaluation, to run the session on concrete inputs: the
  value is the sum of the parameters, the variance is 1.\<close>

definition demo_estimate :: "string \<Rightarrow> string \<Rightarrow> int list \<Rightarrow> rat \<times> rat" where
  "demo_estimate c ob theta = (of_int (sum_list theta), 1)"

section \<open>Properties of the heavy-output projector\<close>

subsection \<open>The median\<close>







subsection \<open>The loop\<close>

text \<open>The loop adds to the dictionary exactly the keys of the entries above the median;
  the accumulator is generalised for the induction.\<close>

lemma keys_heavy_fold:
  "fst ` set (fold (heavy_step m) qv acc) =
     fst ` set acc \<union> {k. \<exists>v. (k, v) \<in> set qv \<and> gt_median v m}"
  by (induction qv arbitrary: acc) (auto simp: heavy_step_def AList.dom_update)

lemma update_all_same:
  "\<forall>p \<in> set al. snd p = v \<Longrightarrow> \<forall>p \<in> set (AList.update k v al). snd p = v"
  by (induction al) auto

lemma vals_heavy_fold:
  "\<forall>p \<in> set acc. snd p = 1 \<Longrightarrow> \<forall>p \<in> set (fold (heavy_step m) qv acc). snd p = 1"
proof (induction qv arbitrary: acc)
  case Nil
  then show ?case by simp
next
  case (Cons kv qv)
  have "\<forall>p \<in> set (heavy_step m kv acc). snd p = 1"
    using Cons.prems update_all_same[of acc 1 "fst kv"] by (simp add: heavy_step_def)
  then show ?case using Cons.IH by simp
qed

lemma distinct_heavy_fold:
  "distinct (map fst acc) \<Longrightarrow> distinct (map fst (fold (heavy_step m) qv acc))"
proof (induction qv arbitrary: acc)
  case Nil
  then show ?case by simp
next
  case (Cons kv qv)
  have "distinct (map fst (heavy_step m kv acc))"
    using Cons.prems by (simp add: heavy_step_def AList.distinct_update)
  then show ?case using Cons.IH by simp
qed




text \<open>
  C8. For every dictionary, the keys of \<open>heavy_projector qv_probs\<close> are keys of \<open>qv_probs\<close>
  and every value of the result is 1: the probabilities are not kept. The result is again
  a dictionary (its keys are distinct).
\<close>

theorem heavy_projector_is_projector:
  "fst ` set (heavy_projector qv_probs) \<subseteq> fst ` set qv_probs
   \<and> (\<forall>kv \<in> set (heavy_projector qv_probs). snd kv = 1)
   \<and> distinct (map fst (heavy_projector qv_probs))"
proof -
  have "fst ` set (heavy_projector qv_probs) \<subseteq> fst ` set qv_probs"
    using keys_heavy_fold[of "median (map snd qv_probs)" qv_probs "[]"]
    by (force simp: heavy_projector_def)
  moreover have "\<forall>kv \<in> set (heavy_projector qv_probs). snd kv = 1"
    using vals_heavy_fold[of "[]" "median (map snd qv_probs)" qv_probs]
    by (simp add: heavy_projector_def)
  moreover have "distinct (map fst (heavy_projector qv_probs))"
    using distinct_heavy_fold[of "[]" "median (map snd qv_probs)" qv_probs]
    by (simp add: heavy_projector_def)
  ultimately show ?thesis by blast
qed

theorem heavy_projector_is_projector_witness:
  "heavy_projector [(''0'', 1 / 4), (''1'', 3 / 4), (''2'', 0)] \<noteq> []
   \<and> fst ` set (heavy_projector [(''0'', 1 / 4), (''1'', 3 / 4), (''2'', 0)])
       \<subseteq> fst ` set [(''0'', 1 / 4), (''1'', 3 / 4), (''2'', 0 :: rat)]
   \<and> snd ` set (heavy_projector [(''0'', 1 / 4), (''1'', 3 / 4), (''2'', 0)]) = {1}"
proof -
  let ?qv = "[(''0'', 1 / 4), (''1'', 3 / 4), (''2'', 0 :: rat)]"
  have ne: "heavy_projector ?qv \<noteq> []"
    by (simp add: heavy_projector_def median_def heavy_step_def)
  have ones: "\<forall>kv \<in> set (heavy_projector ?qv). snd kv = 1"
    using heavy_projector_is_projector[of ?qv] by blast
  have "snd ` set (heavy_projector ?qv) = {1}"
  proof
    show "snd ` set (heavy_projector ?qv) \<subseteq> {1}" using ones by auto
    obtain kv where "kv \<in> set (heavy_projector ?qv)" using ne by (cases "heavy_projector ?qv") auto
    then show "{1} \<subseteq> snd ` set (heavy_projector ?qv)" using ones by force
  qed
  then show ?thesis
    using ne heavy_projector_is_projector[of ?qv] by blast
qed

section \<open>Properties of the wrapper\<close>

lemma list_times_single: "list_times [x] n = replicate n x"
  by (induction n) (simp_all add: list_times_def)

lemma check_operators_raises_iff:
  "check_operators circuits ops = Inl ValueError \<longleftrightarrow>
     is_list circuits \<and> is_list ops \<and> py_len circuits \<noteq> 1 \<and> py_len ops \<noteq> 1
     \<and> py_len circuits \<noteq> py_len ops"
  by (auto simp: check_operators_def)

text \<open>
  C2, as the code has it. \<open>expectation_value_runner\<close> raises \<open>ValueError\<close> exactly when
  the circuits and the expectation operators are both lists, neither of length 1, and their
  lengths differ (``if more than one of each'', as the message of the error says); when it
  raises, the service is as it was: no run request has been submitted; when it does not
  raise, it returns the job of the request it has submitted.
\<close>

theorem runner_raises_iff:
  "(fst (expectation_value_runner run service program_id backend circuits
          expectation_operators shots transpiler_config run_config skip_transpilation
          return_stddev use_measurement_mitigation) = Inl ValueError
    \<longleftrightarrow> is_list circuits \<and> is_list expectation_operators
        \<and> py_len circuits \<noteq> 1 \<and> py_len expectation_operators \<noteq> 1
        \<and> py_len circuits \<noteq> py_len expectation_operators)
   \<and> (fst (expectation_value_runner run service program_id backend circuits
          expectation_operators shots transpiler_config run_config skip_transpilation
          return_stddev use_measurement_mitigation) = Inl ValueError
        \<longrightarrow> snd (expectation_value_runner run service program_id backend circuits
          expectation_operators shots transpiler_config run_config skip_transpilation
          return_stddev use_measurement_mitigation) = service)
   \<and> (fst (expectation_value_runner run service program_id backend circuits
          expectation_operators shots transpiler_config run_config skip_transpilation
          return_stddev use_measurement_mitigation) \<noteq> Inl ValueError
        \<longrightarrow> (\<exists>ops. expectation_value_runner run service program_id backend circuits
          expectation_operators shots transpiler_config run_config skip_transpilation
          return_stddev use_measurement_mitigation =
            (case run service program_id
                 \<lparr>backend_name = (case backend of BackendName b \<Rightarrow> b | BackendObject b \<Rightarrow> name b)\<rparr>
                 \<lparr>in_circuits = circuits,
                  in_expectation_operators = ops,
                  in_shots = shots,
                  in_transpiler_config = transpiler_config,
                  in_run_config = run_config,
                  in_return_stddev = return_stddev,
                  in_skip_transpilation = skip_transpilation,
                  in_use_measurement_mitigation = use_measurement_mitigation\<rparr> of
               (job, service') \<Rightarrow> (Inr job, service'))))"
  (is "(fst ?R = _ \<longleftrightarrow> ?cond) \<and> _ \<and> _")
proof (cases "check_operators circuits expectation_operators")
  case (Inl e)
  then have c: "check_operators circuits expectation_operators = Inl ValueError"
    by (cases e) simp
  then have R: "?R = (Inl ValueError, service)"
    by (simp add: expectation_value_runner_def)
  from c have ?cond by (simp add: check_operators_raises_iff)
  then show ?thesis by (simp add: R)
next
  case (Inr ops)
  then have R: "?R =
      (case run service program_id
                 \<lparr>backend_name = (case backend of BackendName b \<Rightarrow> b | BackendObject b \<Rightarrow> name b)\<rparr>
                 \<lparr>in_circuits = circuits,
                  in_expectation_operators = ops,
                  in_shots = shots,
                  in_transpiler_config = transpiler_config,
                  in_run_config = run_config,
                  in_return_stddev = return_stddev,
                  in_skip_transpilation = skip_transpilation,
                  in_use_measurement_mitigation = use_measurement_mitigation\<rparr> of
               (job, service') \<Rightarrow> (Inr job, service'))"
    by (simp add: expectation_value_runner_def Let_def)
  then have ok: "fst ?R \<noteq> Inl ValueError"
    by (simp split: prod.splits)
  from Inr have "\<not> ?cond"
    using check_operators_raises_iff[of circuits expectation_operators] by simp
  with ok R show ?thesis by blast
qed

theorem runner_raises_iff_witness:
  "py_len (PyList [Item ''a'', Item ''b'']) \<noteq> py_len (PyList [Item (OpStr ''ZZ''), Item (OpStr ''IZ''), Item (OpStr ''ZI'')])
   \<and> fst (expectation_value_runner recording_run [] ''sample-expval'' (BackendName ''ibmq_manila'')
         (PyList [Item ''a'', Item ''b''])
         (PyList [Item (OpStr ''ZZ''), Item (OpStr ''IZ''), Item (OpStr ''ZI'')])
         8192 [] [] False False False) = Inl ValueError
   \<and> snd (expectation_value_runner recording_run [] ''sample-expval'' (BackendName ''ibmq_manila'')
         (PyList [Item ''a'', Item ''b''])
         (PyList [Item (OpStr ''ZZ''), Item (OpStr ''IZ''), Item (OpStr ''ZI'')])
         8192 [] [] False False False) = []"
proof -
  let ?cs = "PyList [Item ''a'', Item ''b'']"
  let ?ops = "PyList [Item (OpStr ''ZZ''), Item (OpStr ''IZ''), Item (OpStr ''ZI'')]"
  let ?r = "expectation_value_runner recording_run [] ''sample-expval''
              (BackendName ''ibmq_manila'') ?cs ?ops 8192 [] [] False False False"
  have c: "is_list ?cs \<and> is_list ?ops \<and> py_len ?cs \<noteq> 1 \<and> py_len ?ops \<noteq> 1
           \<and> py_len ?cs \<noteq> py_len ?ops"
    by simp
  note t = runner_raises_iff[of recording_run "[]" "''sample-expval''"
      "BackendName ''ibmq_manila''" ?cs ?ops 8192 "[]" "[]" False False False]
  from t c have r: "fst ?r = Inl ValueError" by blast
  with t have "snd ?r = []" by blast
  with r c show ?thesis by blast
qed

text \<open>
  A list of one circuit with three operators: the counts differ, the wrapper does not
  raise and the request reaches the service. (The other exempt case, several circuits with
  one operator, is the broadcast below.)
\<close>

theorem runner_mismatch_accepted:
  "length [Item ''qc''] \<noteq> length [Item (OpDict [(''0000'', 1)]), Item (OpDict [(''1111'', 1)]), Item (OpStr ''ZZZZ'')]
   \<and> expectation_value_runner recording_run [] ''sample-expval'' (BackendName ''ibmq_qasm_simulator'')
       (PyList [Item ''qc''])
       (PyList [Item (OpDict [(''0000'', 1)]), Item (OpDict [(''1111'', 1)]), Item (OpStr ''ZZZZ'')])
       8192 [] [] False False False
     = (Inr 0,
        [(''sample-expval'', \<lparr>backend_name = ''ibmq_qasm_simulator''\<rparr>,
          \<lparr>in_circuits = PyList [Item ''qc''],
           in_expectation_operators =
             PyList [Item (OpDict [(''0000'', 1)]), Item (OpDict [(''1111'', 1)]), Item (OpStr ''ZZZZ'')],
           in_shots = 8192, in_transpiler_config = [], in_run_config = [],
           in_return_stddev = False, in_skip_transpilation = False,
           in_use_measurement_mitigation = False\<rparr>)])"
  by (simp add: expectation_value_runner_def check_operators_def recording_run_def)

text \<open>
  C9. With a list of \<open>n \<ge> 2\<close> circuits and a one-element list of operators the wrapper
  does not raise: it calls \<open>run\<close> with inputs whose operators are the single operator
  \<open>n\<close> times, one for each circuit.
\<close>

theorem runner_broadcast:
  assumes "2 \<le> length cs"
  shows "expectation_value_runner run service program_id backend (PyList cs) (PyList [op])
           shots transpiler_config run_config skip_transpilation return_stddev
           use_measurement_mitigation =
         (case run service program_id
                 \<lparr>backend_name = (case backend of BackendName b \<Rightarrow> b | BackendObject b \<Rightarrow> name b)\<rparr>
                 \<lparr>in_circuits = PyList cs,
                  in_expectation_operators = PyList (replicate (length cs) op),
                  in_shots = shots,
                  in_transpiler_config = transpiler_config,
                  in_run_config = run_config,
                  in_return_stddev = return_stddev,
                  in_skip_transpilation = skip_transpilation,
                  in_use_measurement_mitigation = use_measurement_mitigation\<rparr> of
            (job, service') \<Rightarrow> (Inr job, service'))"
  using assms
  by (simp add: expectation_value_runner_def check_operators_def list_times_single Let_def)

theorem runner_broadcast_witness:
  "2 \<le> length [Item ''a'', Item ''b'', Item ''c'']
   \<and> expectation_value_runner recording_run [] ''sample-expval'' (BackendName ''ibmq_manila'')
       (PyList [Item ''a'', Item ''b'', Item ''c'']) (PyList [Item (OpStr ''ZZ'')])
       8192 [] [] False False False
     = (Inr 0,
        [(''sample-expval'', \<lparr>backend_name = ''ibmq_manila''\<rparr>,
          \<lparr>in_circuits = PyList [Item ''a'', Item ''b'', Item ''c''],
           in_expectation_operators =
             PyList [Item (OpStr ''ZZ''), Item (OpStr ''ZZ''), Item (OpStr ''ZZ'')],
           in_shots = 8192, in_transpiler_config = [], in_run_config = [],
           in_return_stddev = False, in_skip_transpilation = False,
           in_use_measurement_mitigation = False\<rparr>)])"
proof -
  have h: "2 \<le> length [Item ''a'', Item ''b'', Item ''c'']" by simp
  show ?thesis
    using h runner_broadcast[OF h, of recording_run "[]" "''sample-expval''"
        "BackendName ''ibmq_manila''" "Item (OpStr ''ZZ'')" 8192 "[]" "[]" False False False]
    by (simp add: recording_run_def numeral_3_eq_3)
qed

section \<open>Properties of the runtime program\<close>



lemma n_circuits_one: "n_circuits c = 1 \<Longrightarrow> \<exists>x. (if \<not> is_list c then PyList [c] else c) = PyList [x]"
  by (cases c) (auto simp: length_Suc_conv)

lemma trans_circuits_single:
  assumes "n_circuits circuits = 1"
    and "\<not> skip_transpilation \<Longrightarrow> n_circuits (transpile lib circuits backend transpiler_config) = 1"
  shows "\<exists>x. trans_circuits_of lib backend circuits transpiler_config skip_transpilation = PyList [x]"
proof (cases skip_transpilation)
  case True
  then show ?thesis
    using n_circuits_one[OF assms(1)] by (simp add: trans_circuits_of_def)
next
  case False
  then show ?thesis
    using n_circuits_one[OF assms(2)] by (simp add: trans_circuits_of_def Let_def)
qed

lemma duplicate_single:
  "ops \<noteq> [] \<Longrightarrow>
   duplicate (duplicate_results_of (PyList ops) (PyList [x])) (PyList ops) d
     = PyList (replicate (length ops) d)"
  by (simp add: duplicate_def duplicate_results_of_def list_times_single)

lemma entrywise_replicate:
  "entrywise f \<Longrightarrow> \<exists>vs. f (PyList (replicate (length ops) d)) (PyList ops) = PyList vs \<and> length vs = length ops"
  unfolding entrywise_def by (metis length_replicate)

text \<open>
  C10. Given one circuit (bare or in a one-element list), transpiled or not, where the
  transpiler returns one circuit for one circuit, and a non-empty list of \<open>k\<close> operators,
  \<open>main\<close> sets \<open>duplicate_results\<close> and hands \<open>k\<close> copies of the circuit's data (the raw
  counts, or the corrected quasi-distribution under mitigation) to the expectation routine;
  with routines that return one entry for each pair, the result has \<open>k\<close> entries.
\<close>

theorem main_single_circuit:
  assumes one: "n_circuits circuits = 1"
    and ops: "ops \<noteq> []"
    and tr: "\<not> skip_transpilation \<Longrightarrow>
               n_circuits (transpile lib circuits backend transpiler_config) = 1"
    and lib: "entrywise (expval lib)" "entrywise (expval_and_stddev lib)"
      "entrywise (quasi_expval lib)" "entrywise (quasi_expval_and_stddev lib)"
  shows "duplicate_results_of (PyList ops)
           (trans_circuits_of lib backend circuits transpiler_config skip_transpilation)
    \<and> main lib backend user_messenger circuits (PyList ops) shots transpiler_config
        run_config skip_transpilation return_stddev False =
        (let trans_circuits =
               trans_circuits_of lib backend circuits transpiler_config skip_transpilation;
             (raw_counts, backend1) = backend_run lib backend trans_circuits shots run_config;
             counts = PyList (replicate (length ops) raw_counts)
         in (if return_stddev then ExpvalStddev (expval_and_stddev lib counts (PyList ops))
             else Expval (expval lib counts (PyList ops)), backend1))
    \<and> main lib backend user_messenger circuits (PyList ops) shots transpiler_config
        run_config skip_transpilation return_stddev True =
        (let trans_circuits =
               trans_circuits_of lib backend circuits transpiler_config skip_transpilation;
             meas_maps = final_measurement_mapping lib trans_circuits;
             (mit, backend1) = cals_from_system lib backend meas_maps;
             (raw_counts, backend2) = backend_run lib backend1 trans_circuits shots run_config;
             quasi_dists = PyList (replicate (length ops)
                 (apply_correction lib mit raw_counts meas_maps return_stddev))
         in (if return_stddev
             then ExpvalStddev (quasi_expval_and_stddev lib quasi_dists (PyList ops))
             else Expval (quasi_expval lib quasi_dists (PyList ops)), backend2))
    \<and> entries (fst (main lib backend user_messenger circuits (PyList ops) shots
          transpiler_config run_config skip_transpilation return_stddev
          use_measurement_mitigation)) = Some (length ops)"
proof -
  obtain x where tc:
    "trans_circuits_of lib backend circuits transpiler_config skip_transpilation = PyList [x]"
    using trans_circuits_single[OF one tr] by blast
  have dup: "duplicate_results_of (PyList ops) (PyList [x])"
    using ops by (simp add: duplicate_results_of_def)
  have d: "\<And>d. duplicate True (PyList ops) d = PyList (replicate (length ops) d)"
    by (simp add: duplicate_def list_times_single)
  have raw: "main lib backend user_messenger circuits (PyList ops) shots transpiler_config
        run_config skip_transpilation return_stddev False =
        (let (raw_counts, backend1) = backend_run lib backend (PyList [x]) shots run_config;
             counts = PyList (replicate (length ops) raw_counts)
         in (if return_stddev then ExpvalStddev (expval_and_stddev lib counts (PyList ops))
             else Expval (expval lib counts (PyList ops)), backend1))"
    by (simp add: main_def tc dup d Let_def split: prod.splits)
  have mit: "main lib backend user_messenger circuits (PyList ops) shots transpiler_config
        run_config skip_transpilation return_stddev True =
        (let meas_maps = final_measurement_mapping lib (PyList [x]);
             (mit, backend1) = cals_from_system lib backend meas_maps;
             (raw_counts, backend2) = backend_run lib backend1 (PyList [x]) shots run_config;
             quasi_dists = PyList (replicate (length ops)
                 (apply_correction lib mit raw_counts meas_maps return_stddev))
         in (if return_stddev
             then ExpvalStddev (quasi_expval_and_stddev lib quasi_dists (PyList ops))
             else Expval (quasi_expval lib quasi_dists (PyList ops)), backend2))"
    by (simp add: main_def tc dup d Let_def split: prod.splits)
  have len: "entries (fst (main lib backend user_messenger circuits (PyList ops) shots
          transpiler_config run_config skip_transpilation return_stddev
          use_measurement_mitigation)) = Some (length ops)"
  proof (cases use_measurement_mitigation)
    case False
    obtain rc b1 where r: "backend_run lib backend (PyList [x]) shots run_config = (rc, b1)"
      by (cases "backend_run lib backend (PyList [x]) shots run_config")
    show ?thesis
      using entrywise_replicate[OF lib(1), of ops rc] entrywise_replicate[OF lib(2), of ops rc]
      by (auto simp: False raw r Let_def)
  next
    case True
    obtain m b1 where c: "cals_from_system lib backend (final_measurement_mapping lib (PyList [x])) = (m, b1)"
      by (cases "cals_from_system lib backend (final_measurement_mapping lib (PyList [x]))")
    obtain rc b2 where r: "backend_run lib b1 (PyList [x]) shots run_config = (rc, b2)"
      by (cases "backend_run lib b1 (PyList [x]) shots run_config")
    let ?q = "apply_correction lib m rc (final_measurement_mapping lib (PyList [x])) return_stddev"
    show ?thesis
      using entrywise_replicate[OF lib(3), of ops ?q] entrywise_replicate[OF lib(4), of ops ?q]
      by (auto simp: True mit c r Let_def)
  qed
  show ?thesis
    using dup raw mit len by (simp add: tc Let_def)
qed

lemma entrywise_pairwise_results: "entrywise (pairwise_results r)"
  by (simp add: entrywise_def)

theorem main_single_circuit_witness:
  "n_circuits (Item ''qc'') = 1
   \<and> [Item (OpStr ''ZZZZ''), Item (OpStr ''IIII''), Item (OpStr ''IZZZ'')] \<noteq> []
   \<and> n_circuits (transpile demo_sdk (Item ''qc'') 0 []) = 1
   \<and> entrywise (expval demo_sdk)
   \<and> main demo_sdk 0 () (Item ''qc'')
        (PyList [Item (OpStr ''ZZZZ''), Item (OpStr ''IIII''), Item (OpStr ''IZZZ'')])
        8192 [] [] False False True
       = (Expval (PyList [Item 1, Item 1, Item 1]), 2)
   \<and> entries (fst (main demo_sdk 0 () (Item ''qc'')
        (PyList [Item (OpStr ''ZZZZ''), Item (OpStr ''IIII''), Item (OpStr ''IZZZ'')])
        8192 [] [] False False True)) = Some 3"
proof -
  let ?ops = "[Item (OpStr ''ZZZZ''), Item (OpStr ''IIII''), Item (OpStr ''IZZZ'')]"
  have one: "n_circuits (Item ''qc'') = 1" by simp
  have ops: "?ops \<noteq> []" by simp
  have tr: "n_circuits (transpile demo_sdk (Item ''qc'') 0 []) = 1"
    by (simp add: demo_sdk_def)
  have lib: "entrywise (expval demo_sdk)" "entrywise (expval_and_stddev demo_sdk)"
    "entrywise (quasi_expval demo_sdk)" "entrywise (quasi_expval_and_stddev demo_sdk)"
    by (simp_all add: demo_sdk_def entrywise_pairwise_results)
  note t = main_single_circuit[OF one ops tr lib, of False "()" 8192 "[]" False]
  from t have m: "main demo_sdk 0 () (Item ''qc'') (PyList ?ops) 8192 [] [] False False True
       = (Expval (PyList [Item 1, Item 1, Item 1]), 2)"
    by (simp add: demo_sdk_def trans_circuits_of_def Let_def numeral_3_eq_3)
  from t have "entries (fst (main demo_sdk 0 () (Item ''qc'') (PyList ?ops)
        8192 [] [] False False True)) = Some (length ?ops)"
    by blast
  then show ?thesis using one ops tr lib(1) m by simp
qed

section \<open>Properties of the Estimator session\<close>

lemma resolve_valid: "valid_ref xs r \<Longrightarrow> resolve xs r = Inr (deref xs r)"
  by (cases r) simp_all

lemma estimate_one_valid:
  "valid_ref (session_circuits est) c \<Longrightarrow> valid_ref (session_observables est) ob \<Longrightarrow>
   estimate_one estimate est (c, ob, p) =
     Inr (estimate (deref (session_circuits est) c) (deref (session_observables est) ob) p)"
  by (simp add: estimate_one_def resolve_valid)

lemma estimate_all_valid:
  assumes "\<forall>t \<in> set ts. valid_ref (session_circuits est) (fst t)
             \<and> valid_ref (session_observables est) (fst (snd t))"
  shows "estimate_all estimate est ts =
           Inr (map (\<lambda>t. estimate (deref (session_circuits est) (fst t))
                          (deref (session_observables est) (fst (snd t))) (snd (snd t))) ts)"
  using assms
proof (induction ts)
  case Nil
  then show ?case by simp
next
  case (Cons t ts)
  obtain c ob p where t: "t = (c, ob, p)" by (cases t) auto
  show ?case using Cons by (simp add: t estimate_one_valid)
qed

text \<open>
  C4. A call of the session with \<open>k\<close> circuit references, \<open>k\<close> observable references and
  \<open>k\<close> parameter lists, all references resolvable, returns a result with exactly \<open>k\<close>
  values and \<open>k\<close> metadata entries; the \<open>i\<close>-th value and the variance of the \<open>i\<close>-th
  metadata entry are those of the \<open>i\<close>-th (circuit, observable, parameters) triple, and
  every metadata entry has a shot count.
\<close>

theorem estimator_call_results:
  assumes len: "length circuits = k" "length observables = k" "length parameter_values = k"
    and vc: "\<forall>c \<in> set circuits. valid_ref (session_circuits est) c"
    and vo: "\<forall>ob \<in> set observables. valid_ref (session_observables est) ob"
  shows "\<exists>r. estimator_call estimate est circuits observables parameter_values = Inr r
           \<and> length (result_values r) = k
           \<and> length (result_metadata r) = k
           \<and> (\<forall>i < k.
                result_values r ! i =
                  fst (estimate (deref (session_circuits est) (circuits ! i))
                         (deref (session_observables est) (observables ! i))
                         (parameter_values ! i))
                \<and> map_of (result_metadata r ! i) ''variance'' =
                    Some (snd (estimate (deref (session_circuits est) (circuits ! i))
                         (deref (session_observables est) (observables ! i))
                         (parameter_values ! i)))
                \<and> map_of (result_metadata r ! i) ''shots'' = Some (of_nat (session_shots est)))"
proof -
  let ?ts = "zip circuits (zip observables parameter_values)"
  let ?f = "\<lambda>t. estimate (deref (session_circuits est) (fst t))
                   (deref (session_observables est) (fst (snd t))) (snd (snd t))"
  have mem: "\<And>c ob p. (c, ob, p) \<in> set ?ts \<Longrightarrow> c \<in> set circuits \<and> ob \<in> set observables"
    by (meson set_zip_leftD set_zip_rightD)
  have "\<forall>t \<in> set ?ts. valid_ref (session_circuits est) (fst t)
             \<and> valid_ref (session_observables est) (fst (snd t))"
  proof
    fix t assume t: "t \<in> set ?ts"
    obtain c ob p where "t = (c, ob, p)" by (cases t) auto
    with t mem[of c ob p] vc vo
    show "valid_ref (session_circuits est) (fst t)
            \<and> valid_ref (session_observables est) (fst (snd t))"
      by simp
  qed
  then have all: "estimate_all estimate est ?ts = Inr (map ?f ?ts)"
    by (rule estimate_all_valid)
  have lts: "length ?ts = k" using len by simp
  have nth: "\<And>i. i < k \<Longrightarrow> ?ts ! i = (circuits ! i, observables ! i, parameter_values ! i)"
    using len by simp
  show ?thesis
    using len all lts nth by (simp add: estimator_call_def)
qed

theorem estimator_call_results_witness:
  "\<exists>r. estimator_call demo_estimate
          \<lparr>session_circuits = [''psi1'', ''psi2''],
           session_observables = [''H1'', ''H2'', ''H3''], session_shots = 1024\<rparr>
          [Index 0, Index 1, Object ''psi1''] [Index 0, Index 1, Index 2]
          [[0, 1, 1, 2, 3, 5], [0, 1, 1, 2, 3, 5, 8, 13], [1, 2, 3, 4, 5, 6]] = Inr r
        \<and> length (result_values r) = 3
        \<and> length (result_metadata r) = 3
        \<and> result_values r ! 2 = 21
        \<and> map_of (result_metadata r ! 2) ''shots'' = Some 1024"
proof -
  let ?est = "\<lparr>session_circuits = [''psi1'', ''psi2''],
           session_observables = [''H1'', ''H2'', ''H3''], session_shots = 1024\<rparr>"
  let ?cs = "[Index 0, Index 1, Object ''psi1'']"
  let ?obs = "[Index 0, Index 1, Index 2] :: string ref list"
  let ?ps = "[[0, 1, 1, 2, 3, 5], [0, 1, 1, 2, 3, 5, 8, 13], [1, 2, 3, 4, 5, 6]] :: int list list"
  have len: "length ?cs = 3" "length ?obs = 3" "length ?ps = 3" by simp_all
  have vc: "\<forall>c \<in> set ?cs. valid_ref (session_circuits ?est) c" by simp
  have vo: "\<forall>ob \<in> set ?obs. valid_ref (session_observables ?est) ob" by simp
  from estimator_call_results[OF len vc vo, of demo_estimate] obtain r
    where r: "estimator_call demo_estimate ?est ?cs ?obs ?ps = Inr r"
      "length (result_values r) = 3" "length (result_metadata r) = 3"
      and nth: "\<forall>i<3. result_values r ! i =
                  fst (demo_estimate (deref (session_circuits ?est) (?cs ! i))
                         (deref (session_observables ?est) (?obs ! i)) (?ps ! i))
                \<and> map_of (result_metadata r ! i) ''variance'' =
                    Some (snd (demo_estimate (deref (session_circuits ?est) (?cs ! i))
                         (deref (session_observables ?est) (?obs ! i)) (?ps ! i)))
                \<and> map_of (result_metadata r ! i) ''shots'' = Some (of_nat (session_shots ?est))"
    by blast
  from nth have "result_values r ! 2 = 21" "map_of (result_metadata r ! 2) ''shots'' = Some 1024"
    by (simp_all add: demo_estimate_def)
  with r show ?thesis by blast
qed

section \<open>Properties of the metadata and the upload\<close>

text \<open>
  C5. The metadata of the notebook has a name, a description, the execution-time limit
  1000, a parameter schema whose required parameters are exactly \<open>circuits\<close>, and a
  schema of the return values; uploading a program with it gives an identifier, and a run
  under that identifier on the service after the upload starts a job of that program.
\<close>

theorem meta_and_upload:
  "\<exists>m sp ps rv.
     meta = Some m
     \<and> get_item m ''name'' = Some (JStr ''sample-expval'')
     \<and> get_item m ''description'' = Some (JStr ''A sample expectation value program.'')
     \<and> get_item m ''max_execution_time'' = Some (JInt 1000)
     \<and> get_item m ''spec'' = Some sp
     \<and> get_item sp ''parameters'' = Some ps
     \<and> get_item ps ''required'' = Some (JList [JStr ''circuits''])
     \<and> get_item sp ''return_values'' = Some rv
     \<and> (\<forall>new_id service data opts (inputs :: 'c inputs).
          service_run (snd (upload_program new_id service data m))
            (fst (upload_program new_id service data m)) opts inputs
          = Inr \<lparr>job_program = \<lparr>program_data = data, program_metadata = m\<rparr>,
                 job_options = opts, job_inputs = inputs\<rparr>)"
  by (simp add: meta_def set_spec_item_def meta_initial_def meta_parameters_def
      meta_return_values_def upload_program_def service_run_def Let_def AList.update_conv')

theorem meta_and_upload_witness:
  "\<exists>m. meta = Some m
     \<and> fst (upload_program serial_id [] ''sample_expval.py'' m) = ''sample-expval-''
     \<and> service_run (snd (upload_program serial_id [] ''sample_expval.py'' m)) ''sample-expval-''
         \<lparr>backend_name = ''ibmq_qasm_simulator''\<rparr>
         \<lparr>in_circuits = Item ''qc'', in_expectation_operators = Item (OpStr ''ZZZZ''),
          in_shots = 8192, in_transpiler_config = [], in_run_config = [],
          in_return_stddev = False, in_skip_transpilation = False,
          in_use_measurement_mitigation = False\<rparr>
       = Inr \<lparr>job_program = \<lparr>program_data = ''sample_expval.py'', program_metadata = m\<rparr>,
              job_options = \<lparr>backend_name = ''ibmq_qasm_simulator''\<rparr>,
              job_inputs =
                \<lparr>in_circuits = Item ''qc'', in_expectation_operators = Item (OpStr ''ZZZZ''),
                 in_shots = 8192, in_transpiler_config = [], in_run_config = [],
                 in_return_stddev = False, in_skip_transpilation = False,
                 in_use_measurement_mitigation = False\<rparr>\<rparr>"
proof -
  from meta_and_upload[where 'c = string] obtain m
    where m: "meta = Some m" "get_item m ''name'' = Some (JStr ''sample-expval'')"
      and run: "\<forall>new_id service data opts (inputs :: string inputs).
          service_run (snd (upload_program new_id service data m))
            (fst (upload_program new_id service data m)) opts inputs
          = Inr \<lparr>job_program = \<lparr>program_data = data, program_metadata = m\<rparr>,
                 job_options = opts, job_inputs = inputs\<rparr>"
    by blast
  have id: "fst (upload_program serial_id [] ''sample_expval.py'' m) = ''sample-expval-''"
    using m(2) by (simp add: upload_program_def serial_id_def Let_def)
  show ?thesis
    using m(1) id run[rule_format, of serial_id "[]" "''sample_expval.py''"] by auto
qed

end
